theory Spec2Isabelle
  imports Main
begin

section \<open>Thin logical volumes on one host: the LVM adapter of pkg/hostpath/lvm.go\<close>

text \<open>
  The Go file drives the LVM command line tools and mount(8)/umount(8) through
  \<^verbatim>\<open>exec.CommandContext(...).Run()\<close>. Everything outside the process (the tools, the
  mount table, the file system) is a deterministic test double here: an environment of
  response functions that are asked with the history of the interactions so far. The
  history is the only state the model threads, and every function returns it extended
  by the interactions it made, so the order of the invocations can be read off.
\<close>

subsection \<open>Go strings\<close>

text \<open>A Go string is a sequence of bytes, a HOL \<open>string\<close> a list of \<open>char\<close> (bytes).\<close>

definition HasSuffix :: "string \<Rightarrow> string \<Rightarrow> bool" where
  "HasSuffix s suffix =
     (length s \<ge> length suffix \<and> drop (length s - length suffix) s = suffix)"

definition TrimSuffix :: "string \<Rightarrow> string \<Rightarrow> string" where
  "TrimSuffix s suffix =
     (if HasSuffix s suffix then take (length s - length suffix) s else s)"

definition HasPrefix :: "string \<Rightarrow> string \<Rightarrow> bool" where
  "HasPrefix s pre = (length s \<ge> length pre \<and> take (length pre) s = pre)"

fun Contains :: "string \<Rightarrow> string \<Rightarrow> bool" where
  "Contains [] substr = (substr = [])"
| "Contains (c # cs) substr = (HasPrefix (c # cs) substr \<or> Contains cs substr)"

subsection \<open>strconv.ParseInt(s, 10, 64)\<close>

text \<open>
  The standard library's parser, at the base and bit size the source calls it with.
  \<open>ParseUint\<close> runs over the bytes with a 64-bit unsigned accumulator; the two
  overflow tests are the library's own, with the wrap-around of \<open>n + d\<close> written out.
\<close>

datatype num_error = ErrSyntax | ErrRange

definition maxUint64 :: nat where
  "maxUint64 = 2 ^ 64 - 1"

definition uint64 :: "nat \<Rightarrow> nat" where
  "uint64 n = n mod 2 ^ 64"

definition int64 :: "int \<Rightarrow> int" where
  "int64 i = (i + 2 ^ 63) mod 2 ^ 64 - 2 ^ 63"

text \<open>\<^verbatim>\<open>lower(c) = c | ('x' - 'X')\<close>: the bit 0x20 is set.\<close>

definition lower :: "nat \<Rightarrow> nat" where
  "lower c = (if (c div 32) mod 2 = 0 then c + 32 else c)"

text \<open>The \<^verbatim>\<open>switch\<close> that turns a byte into a digit value; \<open>None\<close> is its default branch.\<close>

definition digit_of :: "char \<Rightarrow> nat option" where
  "digit_of ch =
     (let c = (of_char ch :: nat) in
      if 48 \<le> c \<and> c \<le> 57 then Some (c - 48)
      else if 97 \<le> lower c \<and> lower c \<le> 122 then Some (lower c - 97 + 10)
      else None)"

fun ParseUint_loop :: "string \<Rightarrow> nat \<Rightarrow> nat \<times> num_error option" where
  "ParseUint_loop [] n = (n, None)"
| "ParseUint_loop (ch # cs) n =
     (case digit_of ch of
        None \<Rightarrow> (0, Some ErrSyntax)
      | Some d \<Rightarrow>
          if d \<ge> 10 then (0, Some ErrSyntax)
          else if n \<ge> maxUint64 div 10 + 1 then (maxUint64, Some ErrRange)
          else
            (let n' = uint64 (n * 10);
                 n1 = uint64 (n' + d)
             in if n1 < n' \<or> n1 > maxUint64 then (maxUint64, Some ErrRange)
                else ParseUint_loop cs n1))"

definition ParseUint :: "string \<Rightarrow> nat \<times> num_error option" where
  "ParseUint s = (if s = [] then (0, Some ErrSyntax) else ParseUint_loop s 0)"

definition ParseInt :: "string \<Rightarrow> int \<times> num_error option" where
  "ParseInt s0 =
     (if s0 = [] then (0, Some ErrSyntax)
      else
        (let neg = (hd s0 = CHR ''-'');
             s = (if hd s0 = CHR ''+'' \<or> hd s0 = CHR ''-'' then tl s0 else s0);
             (un, err) = ParseUint s
         in if err \<noteq> None \<and> err \<noteq> Some ErrRange then (0, err)
            else if \<not> neg \<and> un \<ge> 2 ^ 63 then (2 ^ 63 - 1, Some ErrRange)
            else if neg \<and> un > 2 ^ 63 then (- (2 ^ 63), Some ErrRange)
            else
              (let n = int64 (int un)
               in (if neg then int64 (- n) else n, None))))"

subsection \<open>The data of the package\<close>

record LVM =
  vg :: string
  thinpool :: string

record reportLV =
  LogicalVolumeName :: string
  LogicalVolumeSize :: string
  LogicalVolumeTags :: string

record report =
  LogicalVolumes :: "reportLV list"

record reportWrapper =
  Reports :: "report list"

text \<open>
  A volume handle. The only place that builds one is \<open>findVolumeByLVName\<close>, after it has
  checked that the record is not nil, so the handle carries the record itself.
\<close>

record LVMVolume =
  volumePath :: string
  info :: reportLV

subsection \<open>Errors\<close>

text \<open>
  What \<^verbatim>\<open>c.Run()\<close> returns when it fails: an \<^verbatim>\<open>*exec.ExitError\<close> with its exit code, or
  any other error (the binary is missing, the context was cancelled, ...).
\<close>

datatype run_error = ExitError int | OtherRunError string

text \<open>One constructor for each \<^verbatim>\<open>fmt.Errorf\<close> of the file, with the values it formats.\<close>

datatype error =
    RunFailed "string list" string string run_error
    \<comment> \<open>error running command ARGS (stdout=.., stderr=..): ERR\<close>
  | ParseFailed "string list" string string string
    \<comment> \<open>error parsing output from command ARGS (stdout=.., stderr=..): ERR\<close>
  | ReportCount "string list" string string nat
    \<comment> \<open>error parsing output ...: got N reports, expected exactly 1\<close>
  | MultipleLVs nat
    \<comment> \<open>unexpectedly found multiple logical volumes, found N\<close>
  | MkdirFailed string string
    \<comment> \<open>error creating mount directory PATH: ERR\<close>
  | FormatFailed error
    \<comment> \<open>error formatting volume: ERR\<close>
  | LVInfoFailed error
    \<comment> \<open>error getting lv info for newly created volume: ERR\<close>
  | NewLVNotFound string
    \<comment> \<open>could not find LV info for newly created volume NAME\<close>
  | UnknownSuffix string
    \<comment> \<open>cannot parse size S (unknown suffix)\<close>
  | SizeParseFailed string num_error
    \<comment> \<open>error parsing size S: ERR\<close>

subsection \<open>Handle accessors\<close>

definition LogicalVolumeName_of :: "LVMVolume \<Rightarrow> string" where
  "LogicalVolumeName_of r = LogicalVolumeName (info r)"

definition VolumeSizeBytes :: "LVMVolume \<Rightarrow> error + int" where
  "VolumeSizeBytes r =
     (let s = LogicalVolumeSize (info r) in
      case (if HasSuffix s ''B'' then Some (TrimSuffix s ''B'', 1)
            else if HasSuffix s ''b'' then Some (TrimSuffix s ''b'', 1)
            else None) of
        None \<Rightarrow> Inl (UnknownSuffix s)
      | Some (s', multiplier) \<Rightarrow>
          (let (n, err) = ParseInt s'
           in case err of
                Some e \<Rightarrow> Inl (SizeParseFailed (LogicalVolumeSize (info r)) e)
              | None \<Rightarrow> Inr (int64 (n * multiplier))))"

subsection \<open>The world outside the process\<close>

text \<open>
  What one invocation leaves behind: the two captured streams and the error of
  \<^verbatim>\<open>c.Run()\<close> (\<open>None\<close> for nil).
\<close>

record cmd_output =
  stdout :: string
  stderr :: string
  run_err :: "run_error option"

text \<open>The interactions with the outside: a command with its arguments, or \<^verbatim>\<open>os.MkdirAll\<close>.\<close>

datatype event = Exec string "string list" | MkdirAll string nat

text \<open>
  The environment answers each interaction from the history of the earlier ones.
  \<open>json_Unmarshal\<close> stands for \<^verbatim>\<open>json.Unmarshal\<close> into a fresh \<open>reportWrapper\<close>:
  the decoded value, or the decoder's error message.
\<close>

record env =
  run_resp :: "event list \<Rightarrow> string \<Rightarrow> string list \<Rightarrow> cmd_output"
  mkdir_resp :: "event list \<Rightarrow> string \<Rightarrow> nat \<Rightarrow> string option"
  json_Unmarshal :: "string \<Rightarrow> string + reportWrapper"

definition Run :: "env \<Rightarrow> event list \<Rightarrow> string \<Rightarrow> string list \<Rightarrow> cmd_output \<times> event list" where
  "Run e h name args = (run_resp e h name args, h @ [Exec name args])"

definition os_MkdirAll :: "env \<Rightarrow> event list \<Rightarrow> string \<Rightarrow> nat \<Rightarrow> string option \<times> event list" where
  "os_MkdirAll e h path perm = (mkdir_resp e h path perm, h @ [MkdirAll path perm])"

subsection \<open>Query: runLVSReport\<close>

definition lvs_args :: "string \<Rightarrow> string list" where
  "lvs_args volumeName =
     [''--reportformat=json'', ''--options=lv_tags,lv_name,lv_size'', ''--units=b'']
     @ (if volumeName \<noteq> [] then [volumeName] else [])"

text \<open>The local \<^verbatim>\<open>isNotFound\<close> of lines 105 to 115, for a run that returned the error \<open>err\<close>.\<close>

definition lvs_isNotFound :: "string \<Rightarrow> run_error \<Rightarrow> string \<Rightarrow> bool" where
  "lvs_isNotFound volumeName err errtext =
     (let isNotFound =
            (case err of
               ExitError exitCode \<Rightarrow>
                 exitCode = 5 \<and> Contains errtext ''Failed to find logical volume''
             | OtherRunError _ \<Rightarrow> False)
      in if volumeName = [] then False else isNotFound)"

text \<open>Lines 121 to 129: decoding the captured standard output.\<close>

definition lvs_decode :: "env \<Rightarrow> string list \<Rightarrow> cmd_output \<Rightarrow> error + report" where
  "lvs_decode e cargs c =
     (case json_Unmarshal e (stdout c) of
        Inl jerr \<Rightarrow> Inl (ParseFailed cargs (stdout c) (stderr c) jerr)
      | Inr r \<Rightarrow>
          if length (Reports r) \<noteq> 1
          then Inl (ReportCount cargs (stdout c) (stderr c) (length (Reports r)))
          else Inr (Reports r ! 0))"

definition runLVSReport :: "env \<Rightarrow> event list \<Rightarrow> string \<Rightarrow> (error + report) \<times> event list" where
  "runLVSReport e h volumeName =
     (let args = lvs_args volumeName;
          cargs = ''/sbin/lvs'' # args;
          (c, h') = Run e h ''/sbin/lvs'' args
      in case run_err c of
           Some err \<Rightarrow>
             if \<not> lvs_isNotFound volumeName err (stderr c)
             then (Inl (RunFailed cargs (stdout c) (stderr c) err), h')
             else (lvs_decode e cargs c, h')
         | None \<Rightarrow> (lvs_decode e cargs c, h'))"

subsection \<open>Mount, unmount, format\<close>

definition mount_isAlreadyMounted :: "run_error \<Rightarrow> string \<Rightarrow> bool" where
  "mount_isAlreadyMounted err errtext =
     (case err of
        ExitError exitCode \<Rightarrow> exitCode = 32 \<and> Contains errtext ''already mounted on''
      | OtherRunError _ \<Rightarrow> False)"

definition mount_args :: "string \<Rightarrow> string \<Rightarrow> string \<Rightarrow> string list" where
  "mount_args vgName lvName mountPath =
     [''--make-shared'', ''-t'', ''ext4'', ''/dev/'' @ vgName @ ''/'' @ lvName, mountPath]"

definition ensureMountLV ::
  "env \<Rightarrow> event list \<Rightarrow> string \<Rightarrow> string \<Rightarrow> string \<Rightarrow> error option \<times> event list" where
  "ensureMountLV e h vgName lvName mountPath =
     (case os_MkdirAll e h mountPath 511 of
        (Some err, h1) \<Rightarrow> (Some (MkdirFailed mountPath err), h1)
      | (None, h1) \<Rightarrow>
          (let args = mount_args vgName lvName mountPath;
               (c, h2) = Run e h1 ''/bin/mount'' args
           in case run_err c of
                Some err \<Rightarrow>
                  if \<not> mount_isAlreadyMounted err (stderr c)
                  then (Some (RunFailed (''/bin/mount'' # args) (stdout c) (stderr c) err), h2)
                  else (None, h2)
              | None \<Rightarrow> (None, h2)))"

definition ensureUnmountLV ::
  "env \<Rightarrow> event list \<Rightarrow> string \<Rightarrow> string \<Rightarrow> string \<Rightarrow> error option \<times> event list" where
  "ensureUnmountLV e h vgName lvName mountPath =
     (let args = [mountPath];
          (c, h1) = Run e h ''/bin/umount'' args
      in case run_err c of
           Some err \<Rightarrow> (Some (RunFailed (''/bin/umount'' # args) (stdout c) (stderr c) err), h1)
         | None \<Rightarrow> (None, h1))"

definition mkfsExt4 :: "env \<Rightarrow> event list \<Rightarrow> string \<Rightarrow> string \<Rightarrow> error option \<times> event list" where
  "mkfsExt4 e h vgName lvName =
     (let devicePath = ''/dev/'' @ vgName @ ''/'' @ lvName;
          label = lvName;
          args = [''-L'', label, devicePath];
          (c, h1) = Run e h ''/sbin/mkfs.ext4'' args
      in case run_err c of
           Some err \<Rightarrow> (Some (RunFailed (''/sbin/mkfs.ext4'' # args) (stdout c) (stderr c) err), h1)
         | None \<Rightarrow> (None, h1))"

subsection \<open>Find, create, delete\<close>

definition findLVInfo ::
  "env \<Rightarrow> event list \<Rightarrow> string \<Rightarrow> string \<Rightarrow> (error + reportLV option) \<times> event list" where
  "findLVInfo e h vgName lvName =
     (case runLVSReport e h (vgName @ ''/'' @ lvName) of
        (Inl err, h1) \<Rightarrow> (Inl err, h1)
      | (Inr rep, h1) \<Rightarrow>
          if length (LogicalVolumes rep) > 1
          then (Inl (MultipleLVs (length (LogicalVolumes rep))), h1)
          else if length (LogicalVolumes rep) = 0 then (Inr None, h1)
          else (Inr (Some (LogicalVolumes rep ! 0)), h1))"

definition findVolumeByLVName ::
  "env \<Rightarrow> LVM \<Rightarrow> event list \<Rightarrow> string \<Rightarrow> (error + LVMVolume option) \<times> event list" where
  "findVolumeByLVName e l h lvName =
     (case findLVInfo e h (vg l) lvName of
        (Inl err, h1) \<Rightarrow> (Inl err, h1)
      | (Inr None, h1) \<Rightarrow> (Inr None, h1)
      | (Inr (Some i), h1) \<Rightarrow>
          (let path = ''/volumes/'' @ vg l @ ''/'' @ lvName;
               vol = \<lparr>volumePath = path, info = i\<rparr>
           in case ensureMountLV e h1 (vg l) (LogicalVolumeName (info vol)) path of
                (Some err, h2) \<Rightarrow> (Inl err, h2)
              | (None, h2) \<Rightarrow> (Inr (Some vol), h2)))"

definition findVolumeByVolumeID ::
  "env \<Rightarrow> LVM \<Rightarrow> event list \<Rightarrow> string \<Rightarrow> (error + LVMVolume option) \<times> event list" where
  "findVolumeByVolumeID e l h volumeID = (let lvName = volumeID in findVolumeByLVName e l h lvName)"

definition lvcreate_args :: "LVM \<Rightarrow> string \<Rightarrow> string \<Rightarrow> string list \<Rightarrow> string list" where
  "lvcreate_args l lvName size' tags =
     [''--virtualsize'', size', ''--thinpool'', thinpool l, vg l, ''--thin'',
      ''--type'', ''thin'', ''--name'', lvName]
     @ concat (map (\<lambda>tag. [''--addtag'', tag]) tags)"

definition createThinLV ::
  "env \<Rightarrow> LVM \<Rightarrow> event list \<Rightarrow> string \<Rightarrow> string \<Rightarrow> string list
     \<Rightarrow> (error + LVMVolume option) \<times> event list" where
  "createThinLV e l h lvName size' tags =
     (let args = lvcreate_args l lvName size' tags;
          (c, h1) = Run e h ''/sbin/lvcreate'' args
      in case run_err c of
           Some err \<Rightarrow> (Inl (RunFailed (''/sbin/lvcreate'' # args) (stdout c) (stderr c) err), h1)
         | None \<Rightarrow>
             (case mkfsExt4 e h1 (vg l) lvName of
                (Some err, h2) \<Rightarrow> (Inl (FormatFailed err), h2)
              | (None, h2) \<Rightarrow>
                  (case findVolumeByLVName e l h2 lvName of
                     (Inl err, h3) \<Rightarrow> (Inl (LVInfoFailed err), h3)
                   | (Inr None, h3) \<Rightarrow> (Inl (NewLVNotFound lvName), h3)
                   | (Inr (Some lv), h3) \<Rightarrow> (Inr (Some lv), h3))))"

definition lvremove_args :: "LVM \<Rightarrow> LVMVolume \<Rightarrow> string list" where
  "lvremove_args l volume = [''--yes'', vg l @ ''/'' @ LogicalVolumeName_of volume]"

definition deleteLV :: "env \<Rightarrow> LVM \<Rightarrow> event list \<Rightarrow> LVMVolume \<Rightarrow> error option \<times> event list" where
  "deleteLV e l h volume =
     (case ensureUnmountLV e h (vg l) (LogicalVolumeName (info volume)) (volumePath volume) of
        (Some err, h1) \<Rightarrow> (Some err, h1)
      | (None, h1) \<Rightarrow>
          (let args = lvremove_args l volume;
               (c, h2) = Run e h1 ''/sbin/lvremove'' args
           in case run_err c of
                Some err \<Rightarrow>
                  (Some (RunFailed (''/sbin/lvremove'' # args) (stdout c) (stderr c) err), h2)
              | None \<Rightarrow> (None, h2)))"

subsection \<open>Test doubles\<close>

text \<open>
  Concrete environments for running the model: a command double that answers by the
  name of the binary, a file system where every directory can be created, and a decoder
  double that knows the few documents the examples use and rejects every other input,
  the empty one included (as \<^verbatim>\<open>json.Unmarshal\<close> does, with "unexpected end of JSON input").
\<close>

definition ok :: cmd_output where
  "ok = \<lparr>stdout = [], stderr = [], run_err = None\<rparr>"

definition printing :: "string \<Rightarrow> cmd_output" where
  "printing doc = \<lparr>stdout = doc, stderr = [], run_err = None\<rparr>"

definition failing :: "int \<Rightarrow> string \<Rightarrow> string \<Rightarrow> cmd_output" where
  "failing code doc msg = \<lparr>stdout = doc, stderr = msg, run_err = Some (ExitError code)\<rparr>"

definition doc_no_report :: string where
  \<open>doc_no_report = ''{"report":[]}''\<close>

definition doc_no_lv :: string where
  \<open>doc_no_lv = ''{"report":[{"lv":[]}]}''\<close>

definition doc_two_reports :: string where
  \<open>doc_two_reports = ''{"report":[{"lv":[]},{"lv":[]}]}''\<close>

definition doc_vol1 :: string where
  \<open>doc_vol1 = ''{"report":[{"lv":[{"lv_tags":"owner=team-a","lv_name":"vol1","lv_size":"1073741824B"}]}]}''\<close>

definition doc_twice :: string where
  \<open>doc_twice = ''{"report":[{"lv":[{"lv_tags":"","lv_name":"vol1","lv_size":"1073741824B"},{"lv_tags":"","lv_name":"vol1","lv_size":"4096B"}]}]}''\<close>

definition vol1_info :: reportLV where
  "vol1_info = \<lparr>LogicalVolumeName = ''vol1'', LogicalVolumeSize = ''1073741824B'',
                 LogicalVolumeTags = ''owner=team-a''\<rparr>"

definition fake_Unmarshal :: "string \<Rightarrow> string + reportWrapper" where
  "fake_Unmarshal s =
     (if s = doc_no_report then Inr \<lparr>Reports = []\<rparr>
      else if s = doc_no_lv then Inr \<lparr>Reports = [\<lparr>LogicalVolumes = []\<rparr>]\<rparr>
      else if s = doc_two_reports
        then Inr \<lparr>Reports = [\<lparr>LogicalVolumes = []\<rparr>, \<lparr>LogicalVolumes = []\<rparr>]\<rparr>
      else if s = doc_vol1 then Inr \<lparr>Reports = [\<lparr>LogicalVolumes = [vol1_info]\<rparr>]\<rparr>
      else if s = doc_twice
        then Inr \<lparr>Reports = [\<lparr>LogicalVolumes =
               [vol1_info\<lparr>LogicalVolumeTags := []\<rparr>,
                vol1_info\<lparr>LogicalVolumeTags := [], LogicalVolumeSize := ''4096B''\<rparr>]\<rparr>]\<rparr>
      else if s = [] then Inl ''unexpected end of JSON input''
      else Inl ''invalid character'')"

definition scripted :: "(string \<times> cmd_output) list \<Rightarrow> env" where
  "scripted script =
     \<lparr>run_resp = (\<lambda>h name args. case map_of script name of Some c \<Rightarrow> c | None \<Rightarrow> ok),
      mkdir_resp = (\<lambda>h path perm. None),
      json_Unmarshal = fake_Unmarshal\<rparr>"

definition lvm0 :: LVM where
  "lvm0 = \<lparr>vg = ''vg0'', thinpool = ''thinpool''\<rparr>"

definition vol1 :: LVMVolume where
  "vol1 = \<lparr>volumePath = ''/volumes/vg0/vol1'', info = vol1_info\<rparr>"

subsection \<open>Vocabulary of the properties\<close>

text \<open>
  The situation of a mount request on a path that is already mounted, as the history
  \<open>h\<close> finds it: the directory can be created, and mount(8) exits with code 32 and a
  stderr that contains "already mounted on".
\<close>

definition reports_already_mounted ::
  "env \<Rightarrow> event list \<Rightarrow> string \<Rightarrow> string \<Rightarrow> string \<Rightarrow> bool" where
  "reports_already_mounted e h vgName lvName mountPath =
     (mkdir_resp e h mountPath 511 = None \<and>
      run_err (run_resp e (h @ [MkdirAll mountPath 511]) ''/bin/mount''
                 (mount_args vgName lvName mountPath)) = Some (ExitError 32) \<and>
      Contains (stderr (run_resp e (h @ [MkdirAll mountPath 511]) ''/bin/mount''
                          (mount_args vgName lvName mountPath))) ''already mounted on'')"

text \<open>
  The size strings that \<open>VolumeSizeBytes\<close> is specified on: a decimal integer is an optional
  sign followed by at least one decimal digit, and its value is read digit by digit.
\<close>

definition is_digit :: "char \<Rightarrow> bool" where
  "is_digit ch = (48 \<le> (of_char ch :: nat) \<and> (of_char ch :: nat) \<le> 57)"

fun digits_value :: "nat \<Rightarrow> string \<Rightarrow> nat" where
  "digits_value acc [] = acc"
| "digits_value acc (ch # cs) = digits_value (10 * acc + (of_char ch - 48)) cs"

definition is_sign :: "char \<Rightarrow> bool" where
  "is_sign ch = (ch = CHR ''+'' \<or> ch = CHR ''-'')"

definition is_integer :: "string \<Rightarrow> bool" where
  "is_integer p =
     (case p of
        [] \<Rightarrow> False
      | ch # cs \<Rightarrow> if is_sign ch then cs \<noteq> [] \<and> list_all is_digit cs
                  else list_all is_digit (ch # cs))"

definition integer_value :: "string \<Rightarrow> int" where
  "integer_value p =
     (case p of
        [] \<Rightarrow> 0
      | ch # cs \<Rightarrow> if ch = CHR ''-'' then - int (digits_value 0 cs)
                  else if ch = CHR ''+'' then int (digits_value 0 cs)
                  else int (digits_value 0 (ch # cs)))"

definition fits_int64 :: "int \<Rightarrow> bool" where
  "fits_int64 i = (- (2 ^ 63) \<le> i \<and> i < 2 ^ 63)"

definition byte_suffix :: "string \<Rightarrow> bool" where
  "byte_suffix suf = (suf = ''B'' \<or> suf = ''b'')"

definition sized :: "string \<Rightarrow> LVMVolume" where
  "sized s = \<lparr>volumePath = ''/volumes/vg0/vol1'',
              info = \<lparr>LogicalVolumeName = ''vol1'', LogicalVolumeSize = s,
                      LogicalVolumeTags = []\<rparr>\<rparr>"

section \<open>Properties\<close>

subsection \<open>The decoder double on its documents\<close>

lemma fake_Unmarshal_no_report: "fake_Unmarshal doc_no_report = Inr \<lparr>Reports = []\<rparr>"
  by (simp add: fake_Unmarshal_def)

lemma fake_Unmarshal_no_lv:
  "fake_Unmarshal doc_no_lv = Inr \<lparr>Reports = [\<lparr>LogicalVolumes = []\<rparr>]\<rparr>"
  by (simp add: fake_Unmarshal_def doc_no_lv_def doc_no_report_def)

lemma fake_Unmarshal_two_reports:
  "fake_Unmarshal doc_two_reports =
     Inr \<lparr>Reports = [\<lparr>LogicalVolumes = []\<rparr>, \<lparr>LogicalVolumes = []\<rparr>]\<rparr>"
  by (simp add: fake_Unmarshal_def doc_two_reports_def doc_no_lv_def doc_no_report_def)

lemma fake_Unmarshal_vol1:
  "fake_Unmarshal doc_vol1 = Inr \<lparr>Reports = [\<lparr>LogicalVolumes = [vol1_info]\<rparr>]\<rparr>"
  by (simp add: fake_Unmarshal_def doc_vol1_def doc_two_reports_def doc_no_lv_def
      doc_no_report_def)

lemma fake_Unmarshal_twice:
  "fake_Unmarshal doc_twice =
     Inr \<lparr>Reports = [\<lparr>LogicalVolumes =
            [vol1_info\<lparr>LogicalVolumeTags := []\<rparr>,
             vol1_info\<lparr>LogicalVolumeTags := [], LogicalVolumeSize := ''4096B''\<rparr>]\<rparr>]\<rparr>"
  by (simp add: fake_Unmarshal_def doc_twice_def doc_vol1_def doc_two_reports_def doc_no_lv_def
      doc_no_report_def)

lemma fake_Unmarshal_empty: "fake_Unmarshal [] = Inl ''unexpected end of JSON input''"
  by (simp add: fake_Unmarshal_def doc_twice_def doc_vol1_def doc_two_reports_def doc_no_lv_def
      doc_no_report_def)

lemmas fake_Unmarshal_docs =
  fake_Unmarshal_no_report fake_Unmarshal_no_lv fake_Unmarshal_two_reports fake_Unmarshal_vol1
  fake_Unmarshal_twice fake_Unmarshal_empty

subsection \<open>Shared facts about single invocations\<close>

lemma ensureUnmountLV_run:
  "ensureUnmountLV e h vgName lvName mountPath =
     (case run_err (run_resp e h ''/bin/umount'' [mountPath]) of
        Some err \<Rightarrow>
          Some (RunFailed [''/bin/umount'', mountPath]
                  (stdout (run_resp e h ''/bin/umount'' [mountPath]))
                  (stderr (run_resp e h ''/bin/umount'' [mountPath])) err)
      | None \<Rightarrow> None,
      h @ [Exec ''/bin/umount'' [mountPath]])"
  by (simp add: ensureUnmountLV_def Run_def Let_def split: option.split)

lemma lvs_decode_not_RunFailed: "lvs_decode e cargs c \<noteq> Inl (RunFailed a so se re)"
  by (simp add: lvs_decode_def split: sum.split)

lemma runLVSReport_history:
  "snd (runLVSReport e h volumeName) = h @ [Exec ''/sbin/lvs'' (lvs_args volumeName)]"
  by (simp add: runLVSReport_def Run_def Let_def split: option.split)

lemma findVolumeByLVName_none:
  assumes "runLVSReport e h (vg l @ ''/'' @ lvName) = (Inr rep, h1)"
    and "LogicalVolumes rep = []"
  shows "findVolumeByLVName e l h lvName = (Inr None, h1)"
  using assms by (simp add: findVolumeByLVName_def findLVInfo_def)

subsection \<open>Delete\<close>

text \<open>
  C3. Every \<open>deleteLV\<close> starts with the umount invocation. When that invocation returns
  an error, it is the only interaction of the call and the call fails with it; when it
  succeeds, lvremove follows as the second and last interaction. So lvremove is attempted
  only after umount has completed successfully.
\<close>

theorem deleteLV_unmount_before_remove:
  assumes "deleteLV e l h volume = (r, h')"
  shows "\<exists>rest. h' = h @ Exec ''/bin/umount'' [volumePath volume] # rest \<and>
           (case run_err (run_resp e h ''/bin/umount'' [volumePath volume]) of
              Some err \<Rightarrow> rest = [] \<and> r \<noteq> None
            | None \<Rightarrow> rest = [Exec ''/sbin/lvremove'' (lvremove_args l volume)])"
  using assms
  by (auto simp: deleteLV_def ensureUnmountLV_run Run_def Let_def split: option.splits)

theorem deleteLV_unmount_before_remove_witness:
  "deleteLV (scripted []) lvm0 [] vol1 =
     (None, [Exec ''/bin/umount'' [''/volumes/vg0/vol1''],
             Exec ''/sbin/lvremove'' [''--yes'', ''vg0/vol1'']]) \<and>
   (\<exists>rest. [Exec ''/bin/umount'' [''/volumes/vg0/vol1''],
             Exec ''/sbin/lvremove'' [''--yes'', ''vg0/vol1'']]
           = [] @ Exec ''/bin/umount'' [volumePath vol1] # rest \<and>
      (case run_err (run_resp (scripted []) [] ''/bin/umount'' [volumePath vol1]) of
         Some err \<Rightarrow> rest = [] \<and> (None :: error option) \<noteq> None
       | None \<Rightarrow> rest = [Exec ''/sbin/lvremove'' (lvremove_args lvm0 vol1)]))"
proof -
  have run: "deleteLV (scripted []) lvm0 [] vol1 =
     (None, [Exec ''/bin/umount'' [''/volumes/vg0/vol1''],
             Exec ''/sbin/lvremove'' [''--yes'', ''vg0/vol1'']])"
    by (simp add: deleteLV_def ensureUnmountLV_def Run_def scripted_def ok_def lvm0_def
        vol1_def vol1_info_def lvremove_args_def LogicalVolumeName_of_def Let_def)
  from deleteLV_unmount_before_remove [OF run] run show ?thesis by simp
qed

text \<open>
  C9, as the code has it. The umount invocation has no benign condition: whatever error
  it returns, a report that the path is not mounted included, \<open>deleteLV\<close> returns that
  error as an execution error and makes no further invocation, so lvremove is not run.
\<close>

theorem deleteLV_unmount_error_is_fatal:
  assumes "run_err (run_resp e h ''/bin/umount'' [volumePath volume]) = Some err"
  shows "deleteLV e l h volume =
           (Some (RunFailed [''/bin/umount'', volumePath volume]
                    (stdout (run_resp e h ''/bin/umount'' [volumePath volume]))
                    (stderr (run_resp e h ''/bin/umount'' [volumePath volume])) err),
            h @ [Exec ''/bin/umount'' [volumePath volume]])"
  using assms by (simp add: deleteLV_def ensureUnmountLV_run)

theorem deleteLV_unmount_error_is_fatal_witness:
  "run_err (run_resp (scripted [(''/bin/umount'', failing 1 [] ''umount: target is busy.'')])
              [] ''/bin/umount'' [volumePath vol1]) = Some (ExitError 1) \<and>
   deleteLV (scripted [(''/bin/umount'', failing 1 [] ''umount: target is busy.'')]) lvm0 [] vol1 =
     (Some (RunFailed [''/bin/umount'', ''/volumes/vg0/vol1''] []
              ''umount: target is busy.'' (ExitError 1)),
      [Exec ''/bin/umount'' [''/volumes/vg0/vol1'']])"
proof -
  have hyp: "run_err (run_resp (scripted [(''/bin/umount'', failing 1 [] ''umount: target is busy.'')])
              [] ''/bin/umount'' [volumePath vol1]) = Some (ExitError 1)"
    by (simp add: scripted_def failing_def)
  from deleteLV_unmount_error_is_fatal [OF hyp, of lvm0] hyp show ?thesis
    by (simp add: scripted_def failing_def vol1_def)
qed

text \<open>
  C9 as stated fails: umount reports that the path is not mounted (exit code 32), and
  \<open>deleteLV\<close> fails with that error without ever running lvremove.
\<close>

theorem deleteLV_not_mounted_counterexample:
  "deleteLV (scripted [(''/bin/umount'', failing 32 [] ''umount: /volumes/vg0/vol1: not mounted.'')])
     lvm0 [] vol1 =
     (Some (RunFailed [''/bin/umount'', ''/volumes/vg0/vol1''] []
              ''umount: /volumes/vg0/vol1: not mounted.'' (ExitError 32)),
      [Exec ''/bin/umount'' [''/volumes/vg0/vol1'']])"
  by (simp add: deleteLV_def ensureUnmountLV_def Run_def scripted_def failing_def lvm0_def
      vol1_def vol1_info_def Let_def)

subsection \<open>Find\<close>

text \<open>
  C5. \<open>findVolumeByVolumeID\<close> queries by the name \<open>vg/volumeID\<close>. When the query returns a
  report with no logical volume, the result is the nil handle with no error (and nothing
  is mounted: the history is the one the query left). When the report has more than one
  logical volume, the result is an error that carries their number; no record is picked.
\<close>

theorem findVolumeByVolumeID_none_or_many:
  assumes "runLVSReport e h (vg l @ ''/'' @ volumeID) = (Inr rep, h1)"
  shows "(LogicalVolumes rep = [] \<longrightarrow> findVolumeByVolumeID e l h volumeID = (Inr None, h1)) \<and>
         (length (LogicalVolumes rep) > 1 \<longrightarrow>
            findVolumeByVolumeID e l h volumeID =
              (Inl (MultipleLVs (length (LogicalVolumes rep))), h1))"
  using assms
  by (simp add: findVolumeByVolumeID_def findVolumeByLVName_def findLVInfo_def)

theorem findVolumeByVolumeID_none_or_many_witness:
  "findVolumeByVolumeID (scripted [(''/sbin/lvs'', printing doc_no_lv)]) lvm0 [] ''vol9'' =
     (Inr None, [Exec ''/sbin/lvs'' (lvs_args ''vg0/vol9'')]) \<and>
   findVolumeByVolumeID (scripted [(''/sbin/lvs'', printing doc_twice)]) lvm0 [] ''vol1'' =
     (Inl (MultipleLVs 2), [Exec ''/sbin/lvs'' (lvs_args ''vg0/vol1'')])"
proof -
  have none: "runLVSReport (scripted [(''/sbin/lvs'', printing doc_no_lv)]) []
                (vg lvm0 @ ''/'' @ ''vol9'') =
              (Inr \<lparr>LogicalVolumes = []\<rparr>, [Exec ''/sbin/lvs'' (lvs_args ''vg0/vol9'')])"
    by (simp add: runLVSReport_def Run_def lvs_decode_def scripted_def printing_def
        fake_Unmarshal_docs lvm0_def Let_def)
  have many: "runLVSReport (scripted [(''/sbin/lvs'', printing doc_twice)]) []
                (vg lvm0 @ ''/'' @ ''vol1'') =
              (Inr \<lparr>LogicalVolumes =
                     [vol1_info\<lparr>LogicalVolumeTags := []\<rparr>,
                      vol1_info\<lparr>LogicalVolumeTags := [], LogicalVolumeSize := ''4096B''\<rparr>]\<rparr>,
               [Exec ''/sbin/lvs'' (lvs_args ''vg0/vol1'')])"
    by (simp add: runLVSReport_def Run_def lvs_decode_def scripted_def printing_def
        fake_Unmarshal_docs lvm0_def Let_def)
  from findVolumeByVolumeID_none_or_many [OF none] findVolumeByVolumeID_none_or_many [OF many]
  show ?thesis by simp
qed

subsection \<open>Create\<close>

text \<open>
  C4. When lvcreate and mkfs.ext4 succeed and the query that follows returns a report
  with no logical volume, \<open>findVolumeByLVName\<close> gives its ordinary not-found outcome (the
  nil handle, no error), and \<open>createThinLV\<close> turns it into an error of its own, which
  names the volume: create never returns the nil handle without an error here.
\<close>

theorem createThinLV_consistency_error:
  assumes "run_err (run_resp e h ''/sbin/lvcreate'' (lvcreate_args l lvName size' tags)) = None"
    and "mkfsExt4 e (h @ [Exec ''/sbin/lvcreate'' (lvcreate_args l lvName size' tags)]) (vg l) lvName
           = (None, h2)"
    and "runLVSReport e h2 (vg l @ ''/'' @ lvName) = (Inr rep, h3)"
    and "LogicalVolumes rep = []"
  shows "findVolumeByLVName e l h2 lvName = (Inr None, h3) \<and>
         createThinLV e l h lvName size' tags = (Inl (NewLVNotFound lvName), h3) \<and>
         fst (createThinLV e l h lvName size' tags) \<noteq> Inr None"
proof -
  have nf: "findVolumeByLVName e l h2 lvName = (Inr None, h3)"
    using assms(3,4) by (rule findVolumeByLVName_none)
  have "createThinLV e l h lvName size' tags = (Inl (NewLVNotFound lvName), h3)"
    using assms(1,2) nf by (simp add: createThinLV_def Run_def Let_def)
  with nf show ?thesis by simp
qed

theorem createThinLV_consistency_error_witness:
  "createThinLV (scripted [(''/sbin/lvs'', printing doc_no_lv)]) lvm0 [] ''vol1'' ''1G''
     [''owner=team-a''] =
     (Inl (NewLVNotFound ''vol1''),
      [Exec ''/sbin/lvcreate'' (lvcreate_args lvm0 ''vol1'' ''1G'' [''owner=team-a'']),
       Exec ''/sbin/mkfs.ext4'' [''-L'', ''vol1'', ''/dev/vg0/vol1''],
       Exec ''/sbin/lvs'' (lvs_args ''vg0/vol1'')])"
proof -
  let ?e = "scripted [(''/sbin/lvs'', printing doc_no_lv)]"
  let ?h1 = "[Exec ''/sbin/lvcreate'' (lvcreate_args lvm0 ''vol1'' ''1G'' [''owner=team-a''])]"
  let ?h2 = "?h1 @ [Exec ''/sbin/mkfs.ext4'' [''-L'', ''vol1'', ''/dev/vg0/vol1'']]"
  have a: "run_err (run_resp ?e [] ''/sbin/lvcreate''
             (lvcreate_args lvm0 ''vol1'' ''1G'' [''owner=team-a''])) = None"
    by (simp add: scripted_def ok_def)
  have b: "mkfsExt4 ?e ([] @ ?h1) (vg lvm0) ''vol1'' = (None, ?h2)"
    by (simp add: mkfsExt4_def Run_def scripted_def ok_def lvm0_def Let_def)
  have c: "runLVSReport ?e ?h2 (vg lvm0 @ ''/'' @ ''vol1'') =
             (Inr \<lparr>LogicalVolumes = []\<rparr>, ?h2 @ [Exec ''/sbin/lvs'' (lvs_args ''vg0/vol1'')])"
    by (simp add: runLVSReport_def Run_def lvs_decode_def scripted_def printing_def
        fake_Unmarshal_docs lvm0_def Let_def)
  have d: "LogicalVolumes \<lparr>LogicalVolumes = []\<rparr> = []" by simp
  from createThinLV_consistency_error [OF a b c d] show ?thesis by simp
qed

lemma createThinLV_format_failure:
  assumes "run_err (run_resp e h ''/sbin/lvcreate'' (lvcreate_args l lvName size' tags)) = None"
    and "run_err (run_resp e (h @ [Exec ''/sbin/lvcreate'' (lvcreate_args l lvName size' tags)])
                    ''/sbin/mkfs.ext4'' [''-L'', lvName, ''/dev/'' @ vg l @ ''/'' @ lvName]) \<noteq> None"
  shows "isl (fst (createThinLV e l h lvName size' tags))"
    and "snd (createThinLV e l h lvName size' tags) =
           h @ [Exec ''/sbin/lvcreate'' (lvcreate_args l lvName size' tags),
                Exec ''/sbin/mkfs.ext4'' [''-L'', lvName, ''/dev/'' @ vg l @ ''/'' @ lvName]]"
  using assms by (auto simp: createThinLV_def mkfsExt4_def Run_def Let_def)

text \<open>
  C2. The format step fails after lvcreate has allocated the volume: \<open>createThinLV\<close>
  returns the format error, and its whole history is lvcreate followed by mkfs.ext4.
  No lvremove is run, so the volume that lvcreate made stays behind.
\<close>

theorem createThinLV_format_failure_leaves_lv:
  "createThinLV (scripted [(''/sbin/mkfs.ext4'', failing 1 [] ''mkfs.ext4: No space left on device'')])
     lvm0 [] ''vol1'' ''1G'' [] =
     (Inl (FormatFailed (RunFailed [''/sbin/mkfs.ext4'', ''-L'', ''vol1'', ''/dev/vg0/vol1''] []
             ''mkfs.ext4: No space left on device'' (ExitError 1))),
      [Exec ''/sbin/lvcreate''
         [''--virtualsize'', ''1G'', ''--thinpool'', ''thinpool'', ''vg0'', ''--thin'',
          ''--type'', ''thin'', ''--name'', ''vol1''],
       Exec ''/sbin/mkfs.ext4'' [''-L'', ''vol1'', ''/dev/vg0/vol1'']])"
  by (simp add: createThinLV_def mkfsExt4_def Run_def scripted_def failing_def ok_def lvm0_def
      lvcreate_args_def Let_def)

subsection \<open>Query\<close>

text \<open>
  C1, as the code has it. When the lvs invocation returns an error, \<open>runLVSReport\<close> does
  not escalate it exactly when the error is an exit with code 5, the captured stderr
  contains "Failed to find logical volume", and a volume name was given. In that case the
  outcome is what the captured stdout decodes to, which is never the execution error
  and is zero records when stdout holds one report with no logical volume. In every
  other case, and always when no volume name was given, the outcome is the execution
  error with the arguments, both streams and the error of the run.
\<close>

theorem runLVSReport_not_found_classification:
  assumes "c = run_resp e h ''/sbin/lvs'' (lvs_args volumeName)"
    and "run_err c = Some err"
    and "cargs = ''/sbin/lvs'' # lvs_args volumeName"
  shows "fst (runLVSReport e h volumeName) =
           (if err = ExitError 5 \<and> Contains (stderr c) ''Failed to find logical volume''
                 \<and> volumeName \<noteq> []
            then lvs_decode e cargs c
            else Inl (RunFailed cargs (stdout c) (stderr c) err)) \<and>
         lvs_decode e cargs c \<noteq> Inl (RunFailed cargs (stdout c) (stderr c) err) \<and>
         (json_Unmarshal e (stdout c) = Inr \<lparr>Reports = [\<lparr>LogicalVolumes = []\<rparr>]\<rparr> \<longrightarrow>
            lvs_decode e cargs c = Inr \<lparr>LogicalVolumes = []\<rparr>) \<and>
         (volumeName = [] \<longrightarrow>
            fst (runLVSReport e h volumeName) = Inl (RunFailed cargs (stdout c) (stderr c) err))"
proof -
  have nf: "lvs_isNotFound volumeName err (stderr c) =
              (err = ExitError 5 \<and> Contains (stderr c) ''Failed to find logical volume''
                 \<and> volumeName \<noteq> [])"
    by (cases err) (auto simp: lvs_isNotFound_def)
  have run: "fst (runLVSReport e h volumeName) =
               (if lvs_isNotFound volumeName err (stderr c) then lvs_decode e cargs c
                else Inl (RunFailed cargs (stdout c) (stderr c) err))"
    using assms by (simp add: runLVSReport_def Run_def Let_def)
  have dec: "json_Unmarshal e (stdout c) = Inr \<lparr>Reports = [\<lparr>LogicalVolumes = []\<rparr>]\<rparr> \<longrightarrow>
               lvs_decode e cargs c = Inr \<lparr>LogicalVolumes = []\<rparr>"
    by (simp add: lvs_decode_def)
  have unnamed: "volumeName = [] \<longrightarrow>
      fst (runLVSReport e h volumeName) = Inl (RunFailed cargs (stdout c) (stderr c) err)"
    using nf run by auto
  have classified: "fst (runLVSReport e h volumeName) =
      (if err = ExitError 5 \<and> Contains (stderr c) ''Failed to find logical volume''
            \<and> volumeName \<noteq> []
       then lvs_decode e cargs c
       else Inl (RunFailed cargs (stdout c) (stderr c) err))"
    using nf run by simp
  from classified lvs_decode_not_RunFailed [of e cargs c] dec unnamed show ?thesis
    by blast
qed

theorem runLVSReport_not_found_classification_witness:
  "fst (runLVSReport
          (scripted [(''/sbin/lvs'', failing 5 doc_no_lv ''  Failed to find logical volume vg0/vol9'')])
          [] ''vg0/vol9'') = Inr \<lparr>LogicalVolumes = []\<rparr> \<and>
   fst (runLVSReport
          (scripted [(''/sbin/lvs'', failing 5 doc_no_lv ''  Failed to find logical volume vg0/vol9'')])
          [] []) =
     Inl (RunFailed (''/sbin/lvs'' # lvs_args []) doc_no_lv
            ''  Failed to find logical volume vg0/vol9'' (ExitError 5))"
proof -
  let ?c = "failing 5 doc_no_lv ''  Failed to find logical volume vg0/vol9''"
  let ?e = "scripted [(''/sbin/lvs'', ?c)]"
  have c: "?c = run_resp ?e [] ''/sbin/lvs'' (lvs_args name)" for name
    by (simp add: scripted_def)
  have err: "run_err ?c = Some (ExitError 5)"
    by (simp add: failing_def)
  have inside: "Contains (stderr ?c) ''Failed to find logical volume''"
    by (simp add: failing_def HasPrefix_def)
  have doc: "json_Unmarshal ?e (stdout ?c) = Inr \<lparr>Reports = [\<lparr>LogicalVolumes = []\<rparr>]\<rparr>"
    by (simp add: scripted_def failing_def fake_Unmarshal_docs)
  have named: "fst (runLVSReport ?e [] ''vg0/vol9'') = Inr \<lparr>LogicalVolumes = []\<rparr>"
    using runLVSReport_not_found_classification [OF c err refl, of "''vg0/vol9''"] inside doc
    by simp
  have unnamed: "fst (runLVSReport ?e [] []) =
      Inl (RunFailed (''/sbin/lvs'' # lvs_args []) doc_no_lv
             ''  Failed to find logical volume vg0/vol9'' (ExitError 5))"
    using runLVSReport_not_found_classification [OF c err refl, of "[]"]
    by (simp add: failing_def)
  from named unnamed show ?thesis by simp
qed

text \<open>
  C1 as stated fails: lvs exits with code 5, its stderr mentions "volume not found", a
  volume name was given and stdout holds a report with no logical volume; the query is
  escalated to an execution error instead of returning zero records.
\<close>

theorem runLVSReport_volume_not_found_counterexample:
  "Contains ''lvs: volume not found'' ''volume not found'' \<and>
   fst (runLVSReport (scripted [(''/sbin/lvs'', failing 5 doc_no_lv ''lvs: volume not found'')])
          [] ''vg0/vol9'') =
     Inl (RunFailed (''/sbin/lvs'' # lvs_args ''vg0/vol9'') doc_no_lv ''lvs: volume not found''
            (ExitError 5))"
  by (simp add: runLVSReport_def Run_def Let_def scripted_def failing_def lvs_isNotFound_def
      HasPrefix_def)

text \<open>
  C8. Whenever the query gets to its output (the lvs invocation succeeded, or its error
  was classified as not found) and the output decodes, the query is an error unless the
  decoded document has exactly one report: with no report, or with two or more, it
  fails with the count it found. With exactly one report the query returns that report,
  and a report whose list of logical volumes is empty is returned as it is, not as an
  error.
\<close>

theorem runLVSReport_exactly_one_report:
  assumes "c = run_resp e h ''/sbin/lvs'' (lvs_args volumeName)"
    and "run_err c = None \<or> (\<exists>err. run_err c = Some err \<and> lvs_isNotFound volumeName err (stderr c))"
    and "json_Unmarshal e (stdout c) = Inr w"
  shows "(length (Reports w) \<noteq> 1 \<longrightarrow>
            fst (runLVSReport e h volumeName) =
              Inl (ReportCount (''/sbin/lvs'' # lvs_args volumeName) (stdout c) (stderr c)
                     (length (Reports w)))) \<and>
         (\<forall>r. Reports w = [r] \<longrightarrow> fst (runLVSReport e h volumeName) = Inr r) \<and>
         (Reports w = [\<lparr>LogicalVolumes = []\<rparr>] \<longrightarrow>
            fst (runLVSReport e h volumeName) = Inr \<lparr>LogicalVolumes = []\<rparr>)"
proof -
  have "fst (runLVSReport e h volumeName) = lvs_decode e (''/sbin/lvs'' # lvs_args volumeName) c"
    using assms(1,2) by (auto simp: runLVSReport_def Run_def Let_def)
  with assms(3) show ?thesis by (simp add: lvs_decode_def)
qed

theorem runLVSReport_exactly_one_report_witness:
  "fst (runLVSReport (scripted [(''/sbin/lvs'', printing doc_no_report)]) [] []) =
     Inl (ReportCount (''/sbin/lvs'' # lvs_args []) doc_no_report [] 0) \<and>
   fst (runLVSReport (scripted [(''/sbin/lvs'', printing doc_two_reports)]) [] []) =
     Inl (ReportCount (''/sbin/lvs'' # lvs_args []) doc_two_reports [] 2) \<and>
   fst (runLVSReport (scripted [(''/sbin/lvs'', printing doc_no_lv)]) [] []) =
     Inr \<lparr>LogicalVolumes = []\<rparr> \<and>
   fst (runLVSReport (scripted [(''/sbin/lvs'', printing doc_no_lv)]) [] ''vg0/vol9'') =
     Inr \<lparr>LogicalVolumes = []\<rparr>"
proof -
  have c: "printing d = run_resp (scripted [(''/sbin/lvs'', printing d)]) [] ''/sbin/lvs''
             (lvs_args name)" for d name
    by (simp add: scripted_def)
  have ok: "run_err (printing d) = None \<or>
      (\<exists>err. run_err (printing d) = Some err \<and> lvs_isNotFound name err (stderr (printing d)))"
    for d name
    by (simp add: printing_def)
  have d0: "json_Unmarshal (scripted [(''/sbin/lvs'', printing doc_no_report)])
              (stdout (printing doc_no_report)) = Inr \<lparr>Reports = []\<rparr>"
    by (simp add: scripted_def printing_def fake_Unmarshal_docs)
  have d2: "json_Unmarshal (scripted [(''/sbin/lvs'', printing doc_two_reports)])
              (stdout (printing doc_two_reports)) =
            Inr \<lparr>Reports = [\<lparr>LogicalVolumes = []\<rparr>, \<lparr>LogicalVolumes = []\<rparr>]\<rparr>"
    by (simp add: scripted_def printing_def fake_Unmarshal_docs)
  have d1: "json_Unmarshal (scripted [(''/sbin/lvs'', printing doc_no_lv)])
              (stdout (printing doc_no_lv)) = Inr \<lparr>Reports = [\<lparr>LogicalVolumes = []\<rparr>]\<rparr>"
    by (simp add: scripted_def printing_def fake_Unmarshal_docs)
  from runLVSReport_exactly_one_report [OF c ok d0, of "[]"]
       runLVSReport_exactly_one_report [OF c ok d2, of "[]"]
       runLVSReport_exactly_one_report [OF c ok d1, of "[]"]
       runLVSReport_exactly_one_report [OF c ok d1, of "''vg0/vol9''"]
  show ?thesis by (simp add: printing_def)
qed

text \<open>
  C10. When the error of the lvs invocation is classified as not found, the query goes on
  to decode the captured stdout as it does after a successful run: if the decoder
  rejects stdout (as it rejects the empty output), the query fails with the parse error,
  and if the document does not have exactly one report, it fails with the count. It
  returns a report only when stdout decodes to exactly one.
\<close>

theorem runLVSReport_not_found_still_decodes:
  assumes "c = run_resp e h ''/sbin/lvs'' (lvs_args volumeName)"
    and "run_err c = Some err"
    and "lvs_isNotFound volumeName err (stderr c)"
    and "cargs = ''/sbin/lvs'' # lvs_args volumeName"
  shows "(\<forall>jerr. json_Unmarshal e (stdout c) = Inl jerr \<longrightarrow>
            fst (runLVSReport e h volumeName) = Inl (ParseFailed cargs (stdout c) (stderr c) jerr)) \<and>
         (\<forall>w. json_Unmarshal e (stdout c) = Inr w \<and> length (Reports w) \<noteq> 1 \<longrightarrow>
            fst (runLVSReport e h volumeName) =
              Inl (ReportCount cargs (stdout c) (stderr c) (length (Reports w)))) \<and>
         (\<forall>r. fst (runLVSReport e h volumeName) = Inr r \<longrightarrow>
            json_Unmarshal e (stdout c) = Inr \<lparr>Reports = [r]\<rparr>)"
proof -
  have run: "fst (runLVSReport e h volumeName) = lvs_decode e cargs c"
    using assms by (simp add: runLVSReport_def Run_def Let_def)
  have one: "Reports w = [r] \<Longrightarrow> w = \<lparr>Reports = [r]\<rparr>" for w :: reportWrapper and r
    by (cases w) simp
  have returned: "json_Unmarshal e (stdout c) = Inr \<lparr>Reports = [r]\<rparr>"
    if "lvs_decode e cargs c = Inr r" for r
  proof (cases "json_Unmarshal e (stdout c)")
    case (Inl jerr)
    with that show ?thesis by (simp add: lvs_decode_def)
  next
    case (Inr w)
    with that have len: "length (Reports w) = 1" and r: "r = Reports w ! 0"
      by (auto simp: lvs_decode_def split: if_splits)
    from len r have "Reports w = [r]"
      by (cases "Reports w") auto
    with Inr one show ?thesis by simp
  qed
  have rejected: "fst (runLVSReport e h volumeName) = Inl (ParseFailed cargs (stdout c) (stderr c) jerr)"
    if "json_Unmarshal e (stdout c) = Inl jerr" for jerr
    using that run by (simp add: lvs_decode_def)
  have counted: "fst (runLVSReport e h volumeName) =
      Inl (ReportCount cargs (stdout c) (stderr c) (length (Reports w)))"
    if "json_Unmarshal e (stdout c) = Inr w" and "length (Reports w) \<noteq> 1" for w
    using that run by (simp add: lvs_decode_def)
  show ?thesis
  proof (intro conjI allI impI)
    fix jerr assume "json_Unmarshal e (stdout c) = Inl jerr"
    then show "fst (runLVSReport e h volumeName) = Inl (ParseFailed cargs (stdout c) (stderr c) jerr)"
      by (rule rejected)
  next
    fix w assume "json_Unmarshal e (stdout c) = Inr w \<and> length (Reports w) \<noteq> 1"
    then show "fst (runLVSReport e h volumeName) =
        Inl (ReportCount cargs (stdout c) (stderr c) (length (Reports w)))"
      using counted by blast
  next
    fix r assume "fst (runLVSReport e h volumeName) = Inr r"
    with run have "lvs_decode e cargs c = Inr r" by simp
    then show "json_Unmarshal e (stdout c) = Inr \<lparr>Reports = [r]\<rparr>"
      by (rule returned)
  qed
qed

theorem runLVSReport_not_found_still_decodes_witness:
  "fst (runLVSReport
          (scripted [(''/sbin/lvs'', failing 5 [] ''  Failed to find logical volume vg0/vol9'')])
          [] ''vg0/vol9'') =
     Inl (ParseFailed (''/sbin/lvs'' # lvs_args ''vg0/vol9'') []
            ''  Failed to find logical volume vg0/vol9'' ''unexpected end of JSON input'') \<and>
   fst (runLVSReport
          (scripted [(''/sbin/lvs'', failing 5 doc_no_report ''  Failed to find logical volume vg0/vol9'')])
          [] ''vg0/vol9'') =
     Inl (ReportCount (''/sbin/lvs'' # lvs_args ''vg0/vol9'') doc_no_report
            ''  Failed to find logical volume vg0/vol9'' 0)"
proof -
  let ?msg = "''  Failed to find logical volume vg0/vol9''"
  have c: "failing 5 d ?msg = run_resp (scripted [(''/sbin/lvs'', failing 5 d ?msg)]) []
             ''/sbin/lvs'' (lvs_args ''vg0/vol9'')" for d
    by (simp add: scripted_def)
  have err: "run_err (failing 5 d ?msg) = Some (ExitError 5)" for d
    by (simp add: failing_def)
  have nf: "lvs_isNotFound ''vg0/vol9'' (ExitError 5) (stderr (failing 5 d ?msg))" for d
    by (simp add: lvs_isNotFound_def failing_def HasPrefix_def)
  have empty: "json_Unmarshal (scripted [(''/sbin/lvs'', failing 5 [] ?msg)])
                 (stdout (failing 5 [] ?msg)) = Inl ''unexpected end of JSON input''"
    by (simp add: scripted_def failing_def fake_Unmarshal_docs)
  have none: "json_Unmarshal (scripted [(''/sbin/lvs'', failing 5 doc_no_report ?msg)])
                (stdout (failing 5 doc_no_report ?msg)) = Inr \<lparr>Reports = []\<rparr>"
    by (simp add: scripted_def failing_def fake_Unmarshal_docs)
  have zero: "length (Reports \<lparr>Reports = []\<rparr>) \<noteq> 1" by simp
  note rejected =
    runLVSReport_not_found_still_decodes
      [OF c err nf refl, of "[]", THEN conjunct1, THEN spec, THEN mp, OF empty]
  note counted =
    runLVSReport_not_found_still_decodes
      [OF c err nf refl, of doc_no_report, THEN conjunct2, THEN conjunct1, THEN spec, THEN mp,
       OF conjI, OF none zero]
  from rejected counted show ?thesis by (simp add: failing_def)
qed

subsection \<open>Mount\<close>

text \<open>
  C7, as the code has it. When the mount invocation exits with code 32 and its stderr
  contains "already mounted on", \<open>ensureMountLV\<close> succeeds after the directory creation
  and that one invocation, and a second call in the history the first one left, answered
  the same way, succeeds as well.
\<close>

theorem ensureMountLV_idempotent:
  assumes "reports_already_mounted e h vgName lvName mountPath"
    and "h' = h @ [MkdirAll mountPath 511, Exec ''/bin/mount'' (mount_args vgName lvName mountPath)]"
    and "reports_already_mounted e h' vgName lvName mountPath"
  shows "ensureMountLV e h vgName lvName mountPath = (None, h') \<and>
         fst (ensureMountLV e h' vgName lvName mountPath) = None"
proof -
  have once: "ensureMountLV e k vgName lvName mountPath =
      (None, k @ [MkdirAll mountPath 511, Exec ''/bin/mount'' (mount_args vgName lvName mountPath)])"
    if "reports_already_mounted e k vgName lvName mountPath" for k
    using that
    by (simp add: reports_already_mounted_def ensureMountLV_def os_MkdirAll_def Run_def Let_def
        mount_isAlreadyMounted_def)
  from once [OF assms(1)] once [OF assms(3)] assms(2) show ?thesis by simp
qed

theorem ensureMountLV_idempotent_witness:
  "ensureMountLV
     (scripted [(''/bin/mount'',
        failing 32 [] ''mount: /volumes/vg0/vol1: /dev/mapper/vg0-vol1 already mounted on /volumes/vg0/vol1.'')])
     [] ''vg0'' ''vol1'' ''/volumes/vg0/vol1'' =
     (None, [MkdirAll ''/volumes/vg0/vol1'' 511,
             Exec ''/bin/mount'' (mount_args ''vg0'' ''vol1'' ''/volumes/vg0/vol1'')]) \<and>
   fst (ensureMountLV
     (scripted [(''/bin/mount'',
        failing 32 [] ''mount: /volumes/vg0/vol1: /dev/mapper/vg0-vol1 already mounted on /volumes/vg0/vol1.'')])
     [MkdirAll ''/volumes/vg0/vol1'' 511,
      Exec ''/bin/mount'' (mount_args ''vg0'' ''vol1'' ''/volumes/vg0/vol1'')]
     ''vg0'' ''vol1'' ''/volumes/vg0/vol1'') = None"
proof -
  let ?e = "scripted [(''/bin/mount'',
        failing 32 [] ''mount: /volumes/vg0/vol1: /dev/mapper/vg0-vol1 already mounted on /volumes/vg0/vol1.'')]"
  have again: "reports_already_mounted ?e k ''vg0'' ''vol1'' ''/volumes/vg0/vol1''" for k
    by (simp add: reports_already_mounted_def scripted_def failing_def HasPrefix_def)
  from ensureMountLV_idempotent [OF again [of "[]"] _ again, OF refl] show ?thesis by simp
qed

text \<open>
  C7 as stated fails: mount exits with code 32 and a stderr that mentions "already
  mounted" (the wording of older mount(8) versions), and the step fails with the
  execution error.
\<close>

theorem ensureMountLV_already_mounted_counterexample:
  "Contains ''mount: /dev/vg0/vol1 is already mounted or /volumes/vg0/vol1 busy'' ''already mounted'' \<and>
   ensureMountLV
     (scripted [(''/bin/mount'',
        failing 32 [] ''mount: /dev/vg0/vol1 is already mounted or /volumes/vg0/vol1 busy'')])
     [] ''vg0'' ''vol1'' ''/volumes/vg0/vol1'' =
     (Some (RunFailed (''/bin/mount'' # mount_args ''vg0'' ''vol1'' ''/volumes/vg0/vol1'') []
              ''mount: /dev/vg0/vol1 is already mounted or /volumes/vg0/vol1 busy'' (ExitError 32)),
      [MkdirAll ''/volumes/vg0/vol1'' 511,
       Exec ''/bin/mount'' (mount_args ''vg0'' ''vol1'' ''/volumes/vg0/vol1'')])"
  by (simp add: ensureMountLV_def os_MkdirAll_def Run_def Let_def scripted_def failing_def
      mount_isAlreadyMounted_def HasPrefix_def)

subsection \<open>Size strings\<close>

lemma digit_of_digit: "is_digit ch \<Longrightarrow> digit_of ch = Some (of_char ch - 48) \<and> of_char ch - 48 < (10::nat)"
  by (auto simp: is_digit_def digit_of_def Let_def)

lemma digit_of_other:
  "\<not> is_digit ch \<Longrightarrow> digit_of ch = None \<or> (\<exists>d. digit_of ch = Some d \<and> d \<ge> 10)"
  by (auto simp: is_digit_def digit_of_def Let_def)

lemma digits_value_ge: "acc \<le> digits_value acc cs"
proof (induction cs arbitrary: acc)
  case Nil
  show ?case by simp
next
  case (Cons ch cs)
  have "acc \<le> 10 * acc + (of_char ch - 48)" by simp
  also have "\<dots> \<le> digits_value (10 * acc + (of_char ch - 48)) cs" by (rule Cons.IH)
  finally show ?case by simp
qed

lemma ParseUint_loop_digits:
  "list_all is_digit cs \<Longrightarrow> n < 2 ^ 64 \<Longrightarrow>
     ParseUint_loop cs n =
       (if digits_value n cs < 2 ^ 64 then (digits_value n cs, None)
        else (maxUint64, Some ErrRange))"
proof (induction cs arbitrary: n)
  case Nil
  then show ?case by simp
next
  case (Cons ch cs)
  define d :: nat where "d = of_char ch - 48"
  from Cons.prems(1) have dig: "digit_of ch = Some d" and d: "d < 10"
    using digit_of_digit [of ch] by (simp_all add: d_def)
  from Cons.prems(1) have rest: "list_all is_digit cs" by simp
  have val: "digits_value n (ch # cs) = digits_value (10 * n + d) cs"
    by (simp add: d_def)
  show ?case
  proof (cases "n \<ge> maxUint64 div 10 + 1")
    case True
    then have "(2::nat) ^ 64 \<le> 10 * n + d" by (simp add: maxUint64_def)
    also have "\<dots> \<le> digits_value (10 * n + d) cs" by (rule digits_value_ge)
    finally have "\<not> digits_value n (ch # cs) < 2 ^ 64" using val by simp
    with True dig d show ?thesis by simp
  next
    case False
    then have small: "n * 10 < 2 ^ 64" by (simp add: maxUint64_def)
    then have n': "uint64 (n * 10) = n * 10" by (simp add: uint64_def)
    show ?thesis
    proof (cases "10 * n + d < 2 ^ 64")
      case True
      then have n1: "uint64 (n * 10 + d) = 10 * n + d" by (simp add: uint64_def mult.commute)
      have "ParseUint_loop (ch # cs) n = ParseUint_loop cs (10 * n + d)"
        using False dig d n' n1 True by (simp add: Let_def maxUint64_def)
      also have "\<dots> = (if digits_value (10 * n + d) cs < 2 ^ 64
                         then (digits_value (10 * n + d) cs, None)
                         else (maxUint64, Some ErrRange))"
        using rest True by (rule Cons.IH)
      finally show ?thesis using val by simp
    next
      case over: False
      have "uint64 (n * 10 + d) = (n * 10 + d - 2 ^ 64) mod 2 ^ 64"
        unfolding uint64_def using over by (simp add: le_mod_geq mult.commute)
      also have "\<dots> = n * 10 + d - 2 ^ 64"
        using small d by simp
      finally have n1: "uint64 (n * 10 + d) < n * 10" using d over by simp
      have "(2::nat) ^ 64 \<le> 10 * n + d" using over by simp
      also have "\<dots> \<le> digits_value (10 * n + d) cs" by (rule digits_value_ge)
      finally have "\<not> digits_value n (ch # cs) < 2 ^ 64" using val by simp
      moreover have "ParseUint_loop (ch # cs) n = (maxUint64, Some ErrRange)"
        using False dig d n' n1 by (simp add: Let_def)
      ultimately show ?thesis by simp
    qed
  qed
qed

lemma ParseUint_loop_not_digits:
  "\<not> list_all is_digit cs \<Longrightarrow>
     ParseUint_loop cs n = (0, Some ErrSyntax) \<or> ParseUint_loop cs n = (maxUint64, Some ErrRange)"
proof (induction cs arbitrary: n)
  case Nil
  then show ?case by simp
next
  case (Cons ch cs)
  show ?case
  proof (cases "is_digit ch")
    case True
    with Cons.prems have "\<not> list_all is_digit cs" by simp
    then have "ParseUint_loop cs m = (0, Some ErrSyntax) \<or>
               ParseUint_loop cs m = (maxUint64, Some ErrRange)" for m
      by (rule Cons.IH)
    then show ?thesis
      using digit_of_digit [OF True] by (auto simp: Let_def)
  next
    case False
    from digit_of_other [OF False] show ?thesis by auto
  qed
qed

lemma int64_id: "fits_int64 i \<Longrightarrow> int64 i = i"
  by (simp add: fits_int64_def int64_def)

lemma int64_min: "int64 (2 ^ 63) = - (2 ^ 63)"
  by (simp add: int64_def)

lemma ParseUint_digits:
  assumes "cs \<noteq> []" and "list_all is_digit cs"
  shows "ParseUint cs =
           (if digits_value 0 cs < 2 ^ 64 then (digits_value 0 cs, None)
            else (maxUint64, Some ErrRange))"
  using assms by (simp add: ParseUint_def ParseUint_loop_digits)

lemma ParseUint_not_digits:
  assumes "cs = [] \<or> \<not> list_all is_digit cs"
  shows "ParseUint cs = (0, Some ErrSyntax) \<or> ParseUint cs = (maxUint64, Some ErrRange)"
  using assms ParseUint_loop_not_digits [of cs 0] by (auto simp: ParseUint_def)

text \<open>The digits that \<open>ParseInt\<close> hands to \<open>ParseUint\<close>, and whether it saw a minus sign.\<close>

lemma ParseInt_unfold:
  "ParseInt (ch # cs) =
     (let neg = (ch = CHR ''-'');
          (un, err) = ParseUint (if is_sign ch then cs else ch # cs)
      in if err \<noteq> None \<and> err \<noteq> Some ErrRange then (0, err)
         else if \<not> neg \<and> un \<ge> 2 ^ 63 then (2 ^ 63 - 1, Some ErrRange)
         else if neg \<and> un > 2 ^ 63 then (- (2 ^ 63), Some ErrRange)
         else (if neg then int64 (- int64 (int un)) else int64 (int un), None))"
  by (auto simp: ParseInt_def is_sign_def Let_def split: prod.split)

lemma ParseInt_integer:
  assumes "is_integer p"
  shows "ParseInt p =
           (if fits_int64 (integer_value p) then (integer_value p, None)
            else if integer_value p < 0 then (- (2 ^ 63), Some ErrRange)
            else (2 ^ 63 - 1, Some ErrRange))"
proof (cases p)
  case Nil
  with assms show ?thesis by (simp add: is_integer_def)
next
  case (Cons ch cs)
  define ds where "ds = (if is_sign ch then cs else ch # cs)"
  define un where "un = digits_value 0 ds"
  from assms Cons have ds: "ds \<noteq> []" "list_all is_digit ds"
    by (auto simp: is_integer_def ds_def split: if_splits)
  have notsign: "\<not> is_digit CHR ''-''" "\<not> is_digit CHR ''+''"
    by (simp_all add: is_digit_def)
  have val: "integer_value p = (if ch = CHR ''-'' then - int un else int un)"
    using Cons by (auto simp: integer_value_def un_def ds_def is_sign_def)
  have pu: "ParseUint ds = (if un < 2 ^ 64 then (un, None) else (maxUint64, Some ErrRange))"
    unfolding un_def using ds by (rule ParseUint_digits)
  show ?thesis
  proof (cases "ch = CHR ''-''")
    case neg: True
    show ?thesis
    proof (cases "un \<le> 2 ^ 63")
      case True
      then have fits: "fits_int64 (- int un)" by (simp add: fits_int64_def)
      have "int64 (- int64 (int un)) = - int un"
      proof (cases "un = 2 ^ 63")
        case True
        then show ?thesis by (simp add: int64_def)
      next
        case False
        with \<open>un \<le> 2 ^ 63\<close> have "fits_int64 (int un)" by (simp add: fits_int64_def)
        then show ?thesis using fits by (simp add: int64_id)
      qed
      with True neg pu fits val show ?thesis
        unfolding Cons ParseInt_unfold ds_def [symmetric] by (simp add: Let_def)
    next
      case False
      then have nofit: "\<not> fits_int64 (- int un)" by (simp add: fits_int64_def)
      from False have "un > 0" by simp
      with False neg pu nofit val show ?thesis
        unfolding Cons ParseInt_unfold ds_def [symmetric]
        by (simp add: Let_def maxUint64_def)
    qed
  next
    case pos: False
    show ?thesis
    proof (cases "un < 2 ^ 63")
      case True
      then have fits: "fits_int64 (int un)" by (simp add: fits_int64_def)
      with True pos pu val show ?thesis
        unfolding Cons ParseInt_unfold ds_def [symmetric] by (simp add: Let_def int64_id)
    next
      case False
      then have nofit: "\<not> fits_int64 (int un)" by (simp add: fits_int64_def)
      with False pos pu val show ?thesis
        unfolding Cons ParseInt_unfold ds_def [symmetric]
        by (simp add: Let_def maxUint64_def)
    qed
  qed
qed

lemma ParseInt_not_integer:
  assumes "\<not> is_integer p"
  shows "snd (ParseInt p) \<noteq> None"
proof (cases p)
  case Nil
  then show ?thesis by (simp add: ParseInt_def)
next
  case (Cons ch cs)
  define ds where "ds = (if is_sign ch then cs else ch # cs)"
  from assms Cons have "ds = [] \<or> \<not> list_all is_digit ds"
    by (auto simp: is_integer_def ds_def split: if_splits)
  then have "ParseUint ds = (0, Some ErrSyntax) \<or> ParseUint ds = (maxUint64, Some ErrRange)"
    by (rule ParseUint_not_digits)
  then show ?thesis
    unfolding Cons ParseInt_unfold ds_def [symmetric]
    by (auto simp: Let_def maxUint64_def)
qed

lemma HasSuffix_single: "HasSuffix s [c] \<longleftrightarrow> s \<noteq> [] \<and> last s = c"
proof (cases s rule: rev_cases)
  case Nil
  then show ?thesis by (simp add: HasSuffix_def)
next
  case (snoc xs x)
  then show ?thesis by (auto simp: HasSuffix_def)
qed

lemma TrimSuffix_single: "TrimSuffix (p @ [c]) [c] = p"
  by (simp add: TrimSuffix_def HasSuffix_def)

lemma VolumeSizeBytes_suffixed:
  assumes "LogicalVolumeSize (info r) = p @ suf" and "byte_suffix suf"
  shows "VolumeSizeBytes r =
           (case snd (ParseInt p) of
              Some e \<Rightarrow> Inl (SizeParseFailed (p @ suf) e)
            | None \<Rightarrow> Inr (int64 (fst (ParseInt p) * 1)))"
proof -
  from assms(2) consider "suf = ''B''" | "suf = ''b''"
    by (auto simp: byte_suffix_def)
  then show ?thesis
  proof cases
    case 1
    with assms(1) show ?thesis
      by (simp add: VolumeSizeBytes_def HasSuffix_single TrimSuffix_single Let_def
          split: prod.split option.split)
  next
    case 2
    with assms(1) show ?thesis
      by (simp add: VolumeSizeBytes_def HasSuffix_single TrimSuffix_single Let_def
          split: prod.split option.split)
  qed
qed

text \<open>
  C6. A size string made of a decimal integer and the suffix B or b gives that integer
  when it fits a signed 64-bit integer, and the range error of the size parser when it
  does not. A string that does not end in B or b fails with the unknown-suffix error. A
  string that ends in B or b after anything that is not a decimal integer fails with
  the parse error.
\<close>

theorem VolumeSizeBytes_parses_byte_sizes:
  assumes "LogicalVolumeSize (info r) = s"
  shows "(s = p @ suf \<and> byte_suffix suf \<and> is_integer p \<and> fits_int64 (integer_value p) \<longrightarrow>
            VolumeSizeBytes r = Inr (integer_value p)) \<and>
         (s = p @ suf \<and> byte_suffix suf \<and> is_integer p \<and> \<not> fits_int64 (integer_value p) \<longrightarrow>
            VolumeSizeBytes r = Inl (SizeParseFailed s ErrRange)) \<and>
         (s = p @ suf \<and> byte_suffix suf \<and> \<not> is_integer p \<longrightarrow>
            (\<exists>e. VolumeSizeBytes r = Inl (SizeParseFailed s e))) \<and>
         (s = [] \<or> (last s \<noteq> CHR ''B'' \<and> last s \<noteq> CHR ''b'') \<longrightarrow>
            VolumeSizeBytes r = Inl (UnknownSuffix s))"
proof (intro conjI impI)
  assume a: "s = p @ suf \<and> byte_suffix suf \<and> is_integer p \<and> fits_int64 (integer_value p)"
  then have "ParseInt p = (integer_value p, None)" by (simp add: ParseInt_integer)
  with a assms show "VolumeSizeBytes r = Inr (integer_value p)"
    by (simp add: VolumeSizeBytes_suffixed int64_id)
next
  assume a: "s = p @ suf \<and> byte_suffix suf \<and> is_integer p \<and> \<not> fits_int64 (integer_value p)"
  then have "snd (ParseInt p) = Some ErrRange" by (simp add: ParseInt_integer)
  with a assms show "VolumeSizeBytes r = Inl (SizeParseFailed s ErrRange)"
    by (simp add: VolumeSizeBytes_suffixed)
next
  assume a: "s = p @ suf \<and> byte_suffix suf \<and> \<not> is_integer p"
  then obtain e where "snd (ParseInt p) = Some e"
    using ParseInt_not_integer [of p] by auto
  with a assms show "\<exists>e. VolumeSizeBytes r = Inl (SizeParseFailed s e)"
    by (simp add: VolumeSizeBytes_suffixed)
next
  assume "s = [] \<or> (last s \<noteq> CHR ''B'' \<and> last s \<noteq> CHR ''b'')"
  then have "\<not> HasSuffix s ''B''" and "\<not> HasSuffix s ''b''"
    by (auto simp: HasSuffix_single)
  with assms show "VolumeSizeBytes r = Inl (UnknownSuffix s)"
    by (simp add: VolumeSizeBytes_def Let_def)
qed

theorem VolumeSizeBytes_parses_byte_sizes_witness:
  "VolumeSizeBytes (sized ''1073741824B'') = Inr 1073741824 \<and>
   VolumeSizeBytes (sized ''-4096b'') = Inr (- 4096) \<and>
   VolumeSizeBytes (sized ''9223372036854775808b'') =
     Inl (SizeParseFailed ''9223372036854775808b'' ErrRange) \<and>
   (\<exists>e. VolumeSizeBytes (sized ''1.5GB'') = Inl (SizeParseFailed ''1.5GB'' e)) \<and>
   VolumeSizeBytes (sized ''10G'') = Inl (UnknownSuffix ''10G'')"
proof -
  have size_of: "LogicalVolumeSize (info (sized s)) = s" for s
    by (simp add: sized_def)
  have a: "VolumeSizeBytes (sized ''1073741824B'') = Inr 1073741824"
    using VolumeSizeBytes_parses_byte_sizes
      [where r = "sized ''1073741824B''" and s = "''1073741824B''" and p = "''1073741824''"
         and suf = "''B''", OF size_of]
    by (simp add: byte_suffix_def is_integer_def is_sign_def is_digit_def integer_value_def
        fits_int64_def)
  have b: "VolumeSizeBytes (sized ''-4096b'') = Inr (- 4096)"
    using VolumeSizeBytes_parses_byte_sizes
      [where r = "sized ''-4096b''" and s = "''-4096b''" and p = "''-4096''"
         and suf = "''b''", OF size_of]
    by (simp add: byte_suffix_def is_integer_def is_sign_def is_digit_def integer_value_def
        fits_int64_def)
  have c: "VolumeSizeBytes (sized ''9223372036854775808b'') =
      Inl (SizeParseFailed ''9223372036854775808b'' ErrRange)"
    using VolumeSizeBytes_parses_byte_sizes
      [where r = "sized ''9223372036854775808b''" and s = "''9223372036854775808b''"
         and p = "''9223372036854775808''" and suf = "''b''", OF size_of]
    by (simp add: byte_suffix_def is_integer_def is_sign_def is_digit_def integer_value_def
        fits_int64_def)
  have d: "\<exists>e. VolumeSizeBytes (sized ''1.5GB'') = Inl (SizeParseFailed ''1.5GB'' e)"
    using VolumeSizeBytes_parses_byte_sizes
      [where r = "sized ''1.5GB''" and s = "''1.5GB''" and p = "''1.5G''" and suf = "''B''",
       OF size_of]
    by (simp add: byte_suffix_def is_integer_def is_sign_def is_digit_def)
  have e: "VolumeSizeBytes (sized ''10G'') = Inl (UnknownSuffix ''10G'')"
    using VolumeSizeBytes_parses_byte_sizes
      [where r = "sized ''10G''" and s = "''10G''" and p = "[]" and suf = "[]", OF size_of]
    by simp
  from a b c d e show ?thesis by blast
qed

end
